theory Spec2Isabelle
  imports Complex_Main "HOL-Library.Word" "HOL-Library.Signed_Division"
begin

section \<open>Hardware interface\<close>

text \<open>
  The three sketches (\<^verbatim>\<open>adder\<close>, \<^verbatim>\<open>limit_monitoring\<close>, \<^verbatim>\<open>pulsar\<close>) talk to the board
  through \<^verbatim>\<open>analogRead\<close>, \<^verbatim>\<open>analogWrite\<close>, \<^verbatim>\<open>digitalWrite\<close>, \<^verbatim>\<open>millis\<close> and \<^verbatim>\<open>delay\<close>.
  A poll (one call of \<^verbatim>\<open>loop()\<close>) is modelled as a function from what it reads
  (the samples returned by \<^verbatim>\<open>analogRead\<close>, the value returned by \<^verbatim>\<open>millis\<close>) to the
  list of hardware calls it makes, in program order.

  The pins named by the board header (\<^verbatim>\<open>A0\<close>, \<^verbatim>\<open>A1\<close>, \<^verbatim>\<open>DAC0\<close>, \<^verbatim>\<open>DAC1\<close>) stay symbolic;
  pins given as integer literals in the sketches (40, 45) are \<open>Pin n\<close>.
\<close>

datatype pin = A0 | A1 | DAC0 | DAC1 | Pin nat

datatype level = LOW | HIGH

datatype effect =
    AnalogWrite pin int
  | DigitalWrite pin level
  | Delay int

fun is_write :: "effect \<Rightarrow> bool" where
  "is_write (AnalogWrite p v) = True"
| "is_write (DigitalWrite p l) = True"
| "is_write (Delay d) = False"

text \<open>
  The level last driven on each output pin. \<open>drive\<close> applies one hardware call,
  \<open>drive_all\<close> the calls of a poll in order.
\<close>

datatype signal = Analog int | Digital level

type_synonym outputs = "pin \<Rightarrow> signal option"

fun drive :: "outputs \<Rightarrow> effect \<Rightarrow> outputs" where
  "drive out (AnalogWrite p v) = out(p \<mapsto> Analog v)"
| "drive out (DigitalWrite p l) = out(p \<mapsto> Digital l)"
| "drive out (Delay d) = out"

definition drive_all :: "outputs \<Rightarrow> effect list \<Rightarrow> outputs" where
  "drive_all out es = foldl drive out es"

section \<open>Library functions and macros of the Arduino core\<close>

text \<open>
  Modelled from the spec: the function \<^verbatim>\<open>map\<close> of the Arduino core is called by
  \<^verbatim>\<open>analog_read\<close> but is not part of the sketches. The specification describes it as
  the linear mapping of a sample from the input range onto the output range, in
  integer arithmetic with truncating division and without clamping; that is the core's
  \<^verbatim>\<open>(x - in_min) * (out_max - out_min) / (in_max - in_min) + out_min\<close> on \<^verbatim>\<open>long\<close>.
  C division truncates towards zero, hence \<open>sdiv\<close>.
\<close>

definition map_long :: "int \<Rightarrow> int \<Rightarrow> int \<Rightarrow> int \<Rightarrow> int \<Rightarrow> int" where
  "map_long x in_min in_max out_min out_max =
     (x - in_min) * (out_max - out_min) sdiv (in_max - in_min) + out_min"

text \<open>
  Modelled from the spec: the macro \<^verbatim>\<open>constrain\<close> of the Arduino core, which the
  specification calls clamping to the output range:
  \<^verbatim>\<open>((amt)<(low)?(low):((amt)>(high)?(high):(amt)))\<close>.
\<close>

definition constrain :: "int \<Rightarrow> int \<Rightarrow> int \<Rightarrow> int" where
  "constrain amt low high = (if amt < low then low else if amt > high then high else amt)"

text \<open>
  Modelled from the spec: the macro \<^verbatim>\<open>abs\<close> of the Arduino core,
  \<^verbatim>\<open>((x)>0?(x):-(x))\<close>, which the specification uses to flip the toggle flag.
\<close>

definition abs_macro :: "int \<Rightarrow> int" where
  "abs_macro x = (if x > 0 then x else - x)"

text \<open>
  The range of a 32-bit \<^verbatim>\<open>long\<close>/\<^verbatim>\<open>int\<close> of the board. The sketches' integer
  arithmetic is modelled on \<open>int\<close>; \<open>in_long\<close> is used to show that the
  intermediate values stay inside the machine range for every sample the converter
  can deliver.
\<close>

definition in_long :: "int \<Rightarrow> bool" where
  "in_long x = (- (2 ^ 31) \<le> x \<and> x < 2 ^ 31)"

section \<open>Calibration constants (adder and limit\_monitoring)\<close>

text \<open>
  \<^verbatim>\<open>const float lo = 1023 / (voltage/dac_lo)\<close> and \<^verbatim>\<open>hi\<close> are only ever used as
  \<^verbatim>\<open>long\<close> arguments of \<^verbatim>\<open>map\<close>, so what matters is their value after the implicit
  conversion, which truncates towards zero (\<open>to_long\<close>). The constants are taken as
  exact rationals (170.5 and 852.5); single-precision rounding moves them by less than
  0.001, which does not change the truncated values.
\<close>

definition voltage :: rat where "voltage = 3.3"
definition dac_lo :: rat where "dac_lo = 0.55"
definition dac_hi :: rat where "dac_hi = 2.75"
definition lo :: rat where "lo = 1023 / (voltage / dac_lo)"
definition hi :: rat where "hi = 1023 / (voltage / dac_hi)"

definition to_long :: "rat \<Rightarrow> int" where
  "to_long r = (if 0 \<le> r then \<lfloor>r\<rfloor> else \<lceil>r\<rceil>)"

definition analog_read :: "(pin \<Rightarrow> int) \<Rightarrow> pin \<Rightarrow> int" where
  "analog_read analogRead p = map_long (analogRead p) (to_long lo) (to_long hi) 0 255"

section \<open>adder: the analog averager\<close>

definition loop_adder :: "(pin \<Rightarrow> int) \<Rightarrow> effect list" where
  "loop_adder analogRead =
     (let value0 = analog_read analogRead A0;
          value1 = analog_read analogRead A1;
          sum = (value0 + value1) sdiv 2
      in [AnalogWrite DAC0 (constrain sum 0 255), AnalogWrite DAC1 (constrain sum 0 255)])"

section \<open>limit\_monitoring: the threshold monitor\<close>

text \<open>
  \<^verbatim>\<open>temperature > 229.5\<close> compares an \<^verbatim>\<open>int\<close> with a \<^verbatim>\<open>double\<close>; the conversion of a
  32-bit integer to \<^verbatim>\<open>double\<close> is exact and so is the constant, so the comparison is
  the one on rationals.
\<close>

definition loop_limit_monitoring :: "(pin \<Rightarrow> int) \<Rightarrow> effect list" where
  "loop_limit_monitoring analogRead =
     (let temperature = analog_read analogRead A1
      in if (of_int temperature :: rat) > 229.5
         then [DigitalWrite (Pin 40) HIGH]
         else [DigitalWrite (Pin 40) LOW])"

section \<open>pulsar: the square-wave generator\<close>

text \<open>
  The file-level variables \<^verbatim>\<open>mult\<close> and \<^verbatim>\<open>last\<close> are the state; \<^verbatim>\<open>GRAIN\<close>,
  \<^verbatim>\<open>FREQUENCY\<close> and \<^verbatim>\<open>DIGITAL_OUT\<close> are never assigned. On the board the sketches
  are written for (the one with \<^verbatim>\<open>DAC0\<close> and \<^verbatim>\<open>DAC1\<close>) \<^verbatim>\<open>int\<close> and \<^verbatim>\<open>long\<close> have
  32 bits and \<^verbatim>\<open>millis()\<close> returns a 32-bit unsigned value, so in \<^verbatim>\<open>t - last > FREQUENCY\<close> both \<^verbatim>\<open>last\<close> and \<^verbatim>\<open>FREQUENCY\<close> are
  converted to unsigned and the subtraction wraps; \<^verbatim>\<open>last = t\<close> converts back to
  \<^verbatim>\<open>int\<close>.
\<close>

record pulsar_state =
  mult :: int
  last :: int

definition GRAIN :: int where "GRAIN = 1"
definition FREQUENCY :: int where "FREQUENCY = 100"
definition DIGITAL_OUT :: nat where "DIGITAL_OUT = 45"

definition setup_pulsar :: "32 word \<Rightarrow> pulsar_state" where
  "setup_pulsar millis = \<lparr>mult = 0, last = sint millis\<rparr>"

definition loop_pulsar :: "32 word \<Rightarrow> pulsar_state \<Rightarrow> pulsar_state \<times> effect list" where
  "loop_pulsar millis s =
     (let t = millis in
      if t - word_of_int (last s) > word_of_int FREQUENCY
      then (\<lparr>mult = abs_macro (1 - mult s), last = sint t\<rparr>,
            [AnalogWrite DAC1 (mult s * 255),
             DigitalWrite (Pin DIGITAL_OUT) (if mult s \<noteq> 0 then HIGH else LOW),
             Delay GRAIN])
      else (s, [Delay GRAIN]))"

text \<open>
  The runtime calls \<^verbatim>\<open>loop()\<close> forever; \<open>run_pulsar s ts\<close> is the state and the
  hardware calls after the polls that read the clock values \<open>ts\<close>, in order.
\<close>

fun run_pulsar :: "pulsar_state \<Rightarrow> 32 word list \<Rightarrow> pulsar_state \<times> effect list" where
  "run_pulsar s [] = (s, [])"
| "run_pulsar s (t # ts) =
     (case loop_pulsar t s of (s', es) \<Rightarrow>
        (case run_pulsar s' ts of (s'', es') \<Rightarrow> (s'', es @ es')))"

text \<open>
  The elapsed time the generator compares with its period: the unsigned 32-bit
  difference between the clock and the stored timestamp.
\<close>

definition elapsed :: "32 word \<Rightarrow> pulsar_state \<Rightarrow> nat" where
  "elapsed t s = unat (t - word_of_int (last s))"

section \<open>Basic facts\<close>

lemma to_long_lo: "to_long lo = 170"
  by (simp add: to_long_def lo_def voltage_def dac_lo_def floor_eq_iff)

lemma to_long_hi: "to_long hi = 852"
  by (simp add: to_long_def hi_def voltage_def dac_hi_def floor_eq_iff)

lemma analog_read_eq: "analog_read env p = (env p - 170) * 255 sdiv 682"
  by (simp add: analog_read_def map_long_def to_long_lo to_long_hi)

lemma period_test: "(t - word_of_int (last s) > (word_of_int FREQUENCY :: 32 word)) = (100 < elapsed t s)"
  by (simp add: elapsed_def FREQUENCY_def word_less_nat_alt)

subsection \<open>Truncating division by a positive divisor\<close>

lemma sdiv_pos_nonneg: "0 \<le> a \<Longrightarrow> 0 < c \<Longrightarrow> (a::int) sdiv c = a div c"
  by (simp add: signed_divide_int_def sgn_if)

lemma sdiv_pos_neg: "a < 0 \<Longrightarrow> 0 < c \<Longrightarrow> (a::int) sdiv c = - ((- a) div c)"
  by (simp add: signed_divide_int_def sgn_if)

lemma sdiv_mono:
  assumes "0 < c" "a \<le> b"
  shows "(a::int) sdiv c \<le> b sdiv c"
proof (cases "0 \<le> a")
  case True
  then show ?thesis
    using assms by (simp add: sdiv_pos_nonneg zdiv_mono1)
next
  case False
  note neg_a = this
  show ?thesis
  proof (cases "0 \<le> b")
    case True
    have "a sdiv c \<le> 0"
      using neg_a assms by (simp add: sdiv_pos_neg pos_imp_zdiv_nonneg_iff)
    moreover have "0 \<le> b sdiv c"
      using True assms by (simp add: sdiv_pos_nonneg pos_imp_zdiv_nonneg_iff)
    ultimately show ?thesis by simp
  next
    case False
    have "(- b) div c \<le> (- a) div c"
      using assms by (intro zdiv_mono1) simp_all
    then show ?thesis
      using neg_a False assms by (simp add: sdiv_pos_neg)
  qed
qed

lemma smod_abs_less:
  assumes "0 < c"
  shows "\<bar>(a::int) smod c\<bar> < c"
proof -
  have "\<bar>a smod c\<bar> = \<bar>sgn a\<bar> * (\<bar>a\<bar> mod c)"
    using assms by (simp add: signed_modulo_int_def abs_mult)
  also have "\<dots> \<le> \<bar>a\<bar> mod c"
    using assms by (simp add: sgn_if)
  also have "\<dots> < c"
    using assms by simp
  finally show ?thesis .
qed

lemma sdiv_trunc:
  assumes "0 < c"
  shows "\<bar>rat_of_int (a sdiv c) - rat_of_int a / rat_of_int c\<bar> < 1"
proof -
  have "a = a sdiv c * c + a smod c"
    by (simp add: sdiv_mult_smod_eq)
  then have "rat_of_int a = rat_of_int (a sdiv c) * rat_of_int c + rat_of_int (a smod c)"
    by (metis of_int_add of_int_mult)
  then have "rat_of_int a / rat_of_int c
      = rat_of_int (a sdiv c) + rat_of_int (a smod c) / rat_of_int c"
    using assms by (simp add: field_simps)
  then have "\<bar>rat_of_int (a sdiv c) - rat_of_int a / rat_of_int c\<bar>
      = \<bar>rat_of_int (a smod c)\<bar> / rat_of_int c"
    using assms by simp
  also have "\<dots> < 1"
  proof -
    have "rat_of_int \<bar>a smod c\<bar> < rat_of_int c"
      using smod_abs_less [OF assms, of a] by (simp only: of_int_less_iff)
    then show ?thesis
      using assms by simp
  qed
  finally show ?thesis .
qed

subsection \<open>The clamp and the scaled sample\<close>

lemma constrain_range: "0 \<le> constrain x 0 255 \<and> constrain x 0 255 \<le> 255"
  by (simp add: constrain_def)

lemma constrain_clamp: "low \<le> high \<Longrightarrow> constrain x low high = max low (min high x)"
  by (simp add: constrain_def max_def min_def)

lemma analog_read_mono:
  assumes "env p \<le> env' p'"
  shows "analog_read env p \<le> analog_read env' p'"
proof -
  have "(env p - 170) * 255 \<le> (env' p' - 170) * 255"
    using assms by simp
  then show ?thesis
    unfolding analog_read_eq by (intro sdiv_mono) simp_all
qed

lemma analog_read_trunc:
  "\<bar>rat_of_int (analog_read env p) - 255 * (rat_of_int (env p) - 170) / 682\<bar> < 1"
  using sdiv_trunc [of 682 "(env p - 170) * 255"]
  by (simp add: analog_read_eq mult.commute)

lemma analog_read_below: 
  assumes "env p \<le> 167" shows "analog_read env p < 0"
proof -
  have "analog_read env p \<le> analog_read (\<lambda>_. 167) p"
    using assms by (intro analog_read_mono) simp
  also have "\<dots> = -1" by (simp add: analog_read_eq signed_divide_int_def)
  finally show ?thesis by simp
qed

lemma analog_read_above: 
  assumes "855 \<le> env p" shows "255 < analog_read env p"
proof -
  have "analog_read (\<lambda>_. 855) p \<le> analog_read env p"
    using assms by (intro analog_read_mono) simp
  moreover have "analog_read (\<lambda>_. 855) p = 256" by (simp add: analog_read_eq signed_divide_int_def)
  ultimately show ?thesis by simp
qed

lemma analog_read_in_long:
  assumes "0 \<le> env p" "env p \<le> 1023"
  shows "in_long (env p - to_long lo)" "in_long ((env p - to_long lo) * (255 - 0))"
    "in_long (to_long hi - to_long lo)" "in_long (analog_read env p)"
    "- 63 \<le> analog_read env p" "analog_read env p \<le> 318"
proof -
  show "in_long (env p - to_long lo)" "in_long ((env p - to_long lo) * (255 - 0))"
    "in_long (to_long hi - to_long lo)"
    using assms by (simp_all add: in_long_def to_long_lo to_long_hi)
  have "analog_read (\<lambda>_. 0) p \<le> analog_read env p"
    using assms by (intro analog_read_mono) simp
  moreover have "analog_read (\<lambda>_. 0) p = - 63" by (simp add: analog_read_eq signed_divide_int_def)
  ultimately show lower: "- 63 \<le> analog_read env p" by simp
  have "analog_read env p \<le> analog_read (\<lambda>_. 1023) p"
    using assms by (intro analog_read_mono) simp
  moreover have "analog_read (\<lambda>_. 1023) p = 318" by (simp add: analog_read_eq signed_divide_int_def)
  ultimately show upper: "analog_read env p \<le> 318" by simp
  show "in_long (analog_read env p)" using lower upper by (simp add: in_long_def)
qed

subsection \<open>One poll and many polls of the generator\<close>

lemma loop_pulsar_fire:
  assumes "100 < elapsed t s"
  shows "loop_pulsar t s =
    (\<lparr>mult = abs_macro (1 - mult s), last = sint t\<rparr>,
     [AnalogWrite DAC1 (mult s * 255),
      DigitalWrite (Pin 45) (if mult s \<noteq> 0 then HIGH else LOW),
      Delay 1])"
  using assms by (simp add: loop_pulsar_def period_test DIGITAL_OUT_def GRAIN_def)

lemma loop_pulsar_idle:
  assumes "elapsed t s \<le> 100"
  shows "loop_pulsar t s = (s, [Delay 1])"
  using assms by (simp add: loop_pulsar_def period_test GRAIN_def)

lemma loop_pulsar_mult:
  assumes "mult s = 0 \<or> mult s = 1"
  shows "mult (fst (loop_pulsar t s)) = 0 \<or> mult (fst (loop_pulsar t s)) = 1"
  using assms by (auto simp: loop_pulsar_def abs_macro_def Let_def)

lemma loop_pulsar_analog:
  assumes "mult s = 0 \<or> mult s = 1" "AnalogWrite p v \<in> set (snd (loop_pulsar t s))"
  shows "v = 0 \<or> v = 255"
  using assms by (auto simp: loop_pulsar_def Let_def split: if_splits)

lemma run_pulsar_inv:
  assumes "mult s = 0 \<or> mult s = 1"
  shows "(mult (fst (run_pulsar s ts)) = 0 \<or> mult (fst (run_pulsar s ts)) = 1)
       \<and> (\<forall>p v. AnalogWrite p v \<in> set (snd (run_pulsar s ts)) \<longrightarrow> v = 0 \<or> v = 255)"
  using assms
proof (induction ts arbitrary: s)
  case Nil
  then show ?case by simp
next
  case (Cons t ts)
  obtain s' es where step: "loop_pulsar t s = (s', es)" by (cases "loop_pulsar t s")
  obtain s'' es' where rest: "run_pulsar s' ts = (s'', es')" by (cases "run_pulsar s' ts")
  have inv': "mult s' = 0 \<or> mult s' = 1"
    using loop_pulsar_mult [OF Cons.prems, of t] step by simp
  have es: "\<forall>p v. AnalogWrite p v \<in> set es \<longrightarrow> v = 0 \<or> v = 255"
    using loop_pulsar_analog [OF Cons.prems, of _ _ t] step by simp
  have ih: "(mult s'' = 0 \<or> mult s'' = 1) \<and> (\<forall>p v. AnalogWrite p v \<in> set es' \<longrightarrow> v = 0 \<or> v = 255)"
    using Cons.IH [OF inv'] rest by simp
  show ?case
    using step rest ih es by auto
qed

lemma setup_pulsar_mult: "mult (setup_pulsar t0) = 0"
  by (simp add: setup_pulsar_def)

section \<open>The square-wave generator: transition and frame\<close>

text \<open>
  Claim C1, as stated, says that a transition writes the state after the flip, so that
  from \<open>mult = 0\<close>, \<open>last = 0\<close> the poll at clock value 101 drives the analog output
  to 255 and the digital output to \<open>HIGH\<close>. The sketch calls \<^verbatim>\<open>analogWrite\<close> and
  \<^verbatim>\<open>digitalWrite\<close> before it assigns \<^verbatim>\<open>mult\<close>: at that input the period test
  succeeds, the writes are 0 and \<open>LOW\<close>, and neither 255 nor \<open>HIGH\<close> is written.
\<close>

theorem C1_counterexample:
  "100 < elapsed 101 \<lparr>mult = 0, last = 0\<rparr>
   \<and> loop_pulsar 101 \<lparr>mult = 0, last = 0\<rparr>
       = (\<lparr>mult = 1, last = 101\<rparr>,
          [AnalogWrite DAC1 0, DigitalWrite (Pin 45) LOW, Delay 1])
   \<and> AnalogWrite DAC1 255 \<notin> set (snd (loop_pulsar 101 \<lparr>mult = 0, last = 0\<rparr>))
   \<and> DigitalWrite (Pin 45) HIGH \<notin> set (snd (loop_pulsar 101 \<lparr>mult = 0, last = 0\<rparr>))"
  by (simp add: loop_pulsar_def elapsed_def FREQUENCY_def DIGITAL_OUT_def GRAIN_def abs_macro_def)

text \<open>
  Claim C1, amended: on every poll where the elapsed time strictly exceeds 100 (and the
  toggle flag is 0 or 1), the poll writes the state held before the flip to the
  outputs (analog 255 and digital \<open>HIGH\<close> when the flag was 1, analog 0 and digital
  \<open>LOW\<close> when it was 0), then flips the flag and stores the current clock value in
  \<open>last\<close>; the stored \<^verbatim>\<open>int\<close> converts back to exactly the clock value read.
\<close>

theorem C1_transition:
  assumes "mult s = 0 \<or> mult s = 1" and "100 < elapsed t s"
  shows "loop_pulsar t s =
      (\<lparr>mult = 1 - mult s, last = sint t\<rparr>,
       [AnalogWrite DAC1 (if mult s = 1 then 255 else 0),
        DigitalWrite (Pin 45) (if mult s = 1 then HIGH else LOW),
        Delay 1])
    \<and> (word_of_int (last (fst (loop_pulsar t s))) :: 32 word) = t"
  using assms by (auto simp: loop_pulsar_fire abs_macro_def)

text \<open>
  The amended transition at the two states of the square wave: the first transition
  after start-up writes 0 and \<open>LOW\<close>, the next one 255 and \<open>HIGH\<close>.
\<close>

theorem C1_transition_witness:
  "(mult \<lparr>mult = 0, last = 0\<rparr> = 0 \<or> mult \<lparr>mult = 0, last = 0\<rparr> = 1)
   \<and> 100 < elapsed 101 \<lparr>mult = 0, last = 0\<rparr>
   \<and> loop_pulsar 101 \<lparr>mult = 0, last = 0\<rparr>
       = (\<lparr>mult = 1, last = 101\<rparr>,
          [AnalogWrite DAC1 0, DigitalWrite (Pin 45) LOW, Delay 1])
   \<and> (mult \<lparr>mult = 1, last = 101\<rparr> = 0 \<or> mult \<lparr>mult = 1, last = 101\<rparr> = 1)
   \<and> 100 < elapsed 202 \<lparr>mult = 1, last = 101\<rparr>
   \<and> loop_pulsar 202 \<lparr>mult = 1, last = 101\<rparr>
       = (\<lparr>mult = 0, last = 202\<rparr>,
          [AnalogWrite DAC1 255, DigitalWrite (Pin 45) HIGH, Delay 1])"
  using C1_transition [of "\<lparr>mult = 0, last = 0\<rparr>" 101]
    C1_transition [of "\<lparr>mult = 1, last = 101\<rparr>" 202]
  by (simp add: elapsed_def)

text \<open>
  Claim C6: on every poll where the elapsed time does not exceed 100, the toggle flag
  and the timestamp are unchanged, the poll makes no analog or digital write (its only
  hardware call is the delay), and the driven output levels stay as they were.
\<close>

theorem C6_frame:
  assumes "elapsed t s \<le> 100"
  shows "fst (loop_pulsar t s) = s
    \<and> snd (loop_pulsar t s) = [Delay 1]
    \<and> filter is_write (snd (loop_pulsar t s)) = []
    \<and> drive_all out (snd (loop_pulsar t s)) = out"
  using assms by (simp add: loop_pulsar_idle drive_all_def)

text \<open>The frame condition at elapsed time 50 and at the boundary, elapsed time 100.\<close>

theorem C6_frame_witness:
  "elapsed 50 \<lparr>mult = 0, last = 0\<rparr> \<le> 100
   \<and> loop_pulsar 50 \<lparr>mult = 0, last = 0\<rparr> = (\<lparr>mult = 0, last = 0\<rparr>, [Delay 1])
   \<and> elapsed 100 \<lparr>mult = 1, last = 0\<rparr> \<le> 100
   \<and> loop_pulsar 100 \<lparr>mult = 1, last = 0\<rparr> = (\<lparr>mult = 1, last = 0\<rparr>, [Delay 1])"
  using C6_frame [of 50 "\<lparr>mult = 0, last = 0\<rparr>" Map.empty]
     C6_frame [of 100 "\<lparr>mult = 1, last = 0\<rparr>" Map.empty]
  by (simp add: elapsed_def prod_eq_iff)

section \<open>The averager\<close>

text \<open>
  Claim C2: when the two scaled values \<open>a\<close> and \<open>b\<close> lie in \<open>[0, 255]\<close>, the poll writes
  the clamp of \<open>(a + b) / 2\<close> (truncating division) to \<open>DAC0\<close> and to \<open>DAC1\<close>, and
  nothing else; in that range the clamp is the identity and truncation is the floor.
\<close>

theorem C2_averager:
  assumes "analog_read env A0 = a" and "analog_read env A1 = b"
    and "0 \<le> a" and "a \<le> 255" and "0 \<le> b" and "b \<le> 255"
  shows "loop_adder env =
      [AnalogWrite DAC0 (max 0 (min 255 ((a + b) sdiv 2))),
       AnalogWrite DAC1 (max 0 (min 255 ((a + b) sdiv 2)))]
    \<and> max 0 (min 255 ((a + b) sdiv 2)) = (a + b) div 2"
proof -
  have "loop_adder env =
      [AnalogWrite DAC0 (max 0 (min 255 ((a + b) sdiv 2))),
       AnalogWrite DAC1 (max 0 (min 255 ((a + b) sdiv 2)))]"
    using assms(1,2) by (simp add: loop_adder_def Let_def constrain_clamp)
  moreover have "(a + b) sdiv 2 = (a + b) div 2"
    using assms by (simp add: sdiv_pos_nonneg)
  moreover have "0 \<le> (a + b) div 2" "(a + b) div 2 \<le> 255"
    using assms by simp_all
  ultimately show ?thesis by simp
qed

text \<open>
  The example of the claim: raw samples 705 and 708 scale to 200 and 201, and the poll
  writes 200 to both channels.
\<close>

theorem C2_averager_witness:
  "analog_read (\<lambda>p. if p = A0 then 705 else 708) A0 = 200
   \<and> analog_read (\<lambda>p. if p = A0 then 705 else 708) A1 = 201
   \<and> (0::int) \<le> 200 \<and> (200::int) \<le> 255 \<and> (0::int) \<le> 201 \<and> (201::int) \<le> 255
   \<and> loop_adder (\<lambda>p. if p = A0 then 705 else 708)
       = [AnalogWrite DAC0 200, AnalogWrite DAC1 200]"
proof -
  have a: "analog_read (\<lambda>p. if p = A0 then 705 else 708) A0 = 200"
    by (simp add: analog_read_eq signed_divide_int_def)
  have b: "analog_read (\<lambda>p. if p = A0 then 705 else 708) A1 = 201"
    by (simp add: analog_read_eq signed_divide_int_def)
  show ?thesis
    using C2_averager [OF a b] a b by (simp add: signed_divide_int_def)
qed

section \<open>The linear mapping and the threshold\<close>

lemma to_long_sdiv:
  assumes "0 < c"
  shows "to_long (rat_of_int a / rat_of_int c) = a sdiv c"
proof (cases "0 \<le> a")
  case True
  then have "0 \<le> rat_of_int a / rat_of_int c"
    using assms by simp
  then show ?thesis
    using True assms by (simp add: to_long_def floor_divide_of_int_eq sdiv_pos_nonneg)
next
  case False
  then have neg: "rat_of_int a / rat_of_int c < 0"
    using assms by (simp add: divide_neg_pos)
  have "\<lceil>rat_of_int a / rat_of_int c\<rceil> = - \<lfloor>rat_of_int (- a) / rat_of_int c\<rfloor>"
    by (simp add: ceiling_def)
  also have "\<dots> = - ((- a) div c)"
    by (simp only: floor_divide_of_int_eq)
  finally show ?thesis
    using False neg assms by (simp add: to_long_def sdiv_pos_neg)
qed

lemma threshold_int: "(rat_of_int x > 229.5) = (230 \<le> x)"
proof (cases "230 \<le> x")
  case True
  then have "rat_of_int 230 \<le> rat_of_int x"
    by (simp only: of_int_le_iff)
  then show ?thesis using True by simp
next
  case False
  then have "x \<le> 229" by simp
  then have "rat_of_int x \<le> rat_of_int 229"
    by (simp only: of_int_le_iff)
  then show ?thesis using False by simp
qed

text \<open>
  Claim C3: on every poll the monitor drives pin 40 \<open>HIGH\<close> if and only if the scaled
  value is strictly greater than 229.5, and \<open>LOW\<close> otherwise; on integers that is
  \<open>230 \<le> value\<close>, so a scaled value of 229 gives \<open>LOW\<close> and 230 gives \<open>HIGH\<close>.
\<close>

theorem C3_threshold:
  "(loop_limit_monitoring env = [DigitalWrite (Pin 40) HIGH])
      = (rat_of_int (analog_read env A1) > 229.5)
   \<and> (loop_limit_monitoring env = [DigitalWrite (Pin 40) LOW])
      = (\<not> rat_of_int (analog_read env A1) > 229.5)
   \<and> (rat_of_int (analog_read env A1) > 229.5) = (230 \<le> analog_read env A1)
   \<and> (analog_read env A1 = 229 \<longrightarrow> loop_limit_monitoring env = [DigitalWrite (Pin 40) LOW])
   \<and> (analog_read env A1 = 230 \<longrightarrow> loop_limit_monitoring env = [DigitalWrite (Pin 40) HIGH])"
  by (simp add: loop_limit_monitoring_def Let_def threshold_int)

text \<open>Raw samples 783 and 786 scale to 229 and 230: the two sides of the threshold.\<close>

theorem C3_threshold_witness:
  "analog_read (\<lambda>p. 783) A1 = 229
   \<and> loop_limit_monitoring (\<lambda>p. 783) = [DigitalWrite (Pin 40) LOW]
   \<and> analog_read (\<lambda>p. 786) A1 = 230
   \<and> loop_limit_monitoring (\<lambda>p. 786) = [DigitalWrite (Pin 40) HIGH]"
proof -
  have a: "analog_read (\<lambda>p. 783) A1 = 229"
    by (simp add: analog_read_eq signed_divide_int_def)
  have b: "analog_read (\<lambda>p. 786) A1 = 230"
    by (simp add: analog_read_eq signed_divide_int_def)
  show ?thesis
    using C3_threshold [of "\<lambda>p. 783"] C3_threshold [of "\<lambda>p. 786"] a b by simp
qed

text \<open>
  Claim C4: the mapping with the reference bounds \<open>lo\<close> and \<open>hi\<close> (as \<^verbatim>\<open>map\<close> receives
  them, converted to \<^verbatim>\<open>long\<close>) sends \<open>lo\<close> to 0 and \<open>hi\<close> to 255, is non-decreasing in
  the sample, stays in \<open>[0, 255]\<close> between the bounds, and is linear up to integer
  truncation: it is the exact linear function truncated towards zero, hence less than
  1 away from it.
\<close>

theorem C4_mapping:
  "map_long (to_long lo) (to_long lo) (to_long hi) 0 255 = 0
   \<and> map_long (to_long hi) (to_long lo) (to_long hi) 0 255 = 255
   \<and> (env p = to_long lo \<longrightarrow> analog_read env p = 0)
   \<and> (env p = to_long hi \<longrightarrow> analog_read env p = 255)
   \<and> (env p \<le> env' p' \<longrightarrow> analog_read env p \<le> analog_read env' p')
   \<and> (to_long lo \<le> env p \<longrightarrow> env p \<le> to_long hi \<longrightarrow>
        0 \<le> analog_read env p \<and> analog_read env p \<le> 255)
   \<and> analog_read env p
       = to_long (255 * (rat_of_int (env p) - rat_of_int (to_long lo))
                  / (rat_of_int (to_long hi) - rat_of_int (to_long lo)))
   \<and> \<bar>rat_of_int (analog_read env p)
       - 255 * (rat_of_int (env p) - rat_of_int (to_long lo))
         / (rat_of_int (to_long hi) - rat_of_int (to_long lo))\<bar> < 1"
proof -
  have ends: "map_long (to_long lo) (to_long lo) (to_long hi) 0 255 = 0"
    "map_long (to_long hi) (to_long lo) (to_long hi) 0 255 = 255"
    by (simp_all add: map_long_def to_long_lo to_long_hi signed_divide_int_def)
  have at_lo: "env p = to_long lo \<longrightarrow> analog_read env p = 0"
    by (simp add: analog_read_eq to_long_lo)
  have at_hi: "env p = to_long hi \<longrightarrow> analog_read env p = 255"
    by (simp add: analog_read_eq to_long_hi signed_divide_int_def)
  have mono: "env p \<le> env' p' \<longrightarrow> analog_read env p \<le> analog_read env' p'"
    by (simp add: analog_read_mono)
  have range: "to_long lo \<le> env p \<longrightarrow> env p \<le> to_long hi \<longrightarrow>
        0 \<le> analog_read env p \<and> analog_read env p \<le> 255"
  proof (intro impI)
    assume l: "to_long lo \<le> env p" and h: "env p \<le> to_long hi"
    have "analog_read (\<lambda>_. 170) p \<le> analog_read env p"
      using l by (intro analog_read_mono) (simp add: to_long_lo)
    moreover have "analog_read env p \<le> analog_read (\<lambda>_. 852) p"
      using h by (intro analog_read_mono) (simp add: to_long_hi)
    ultimately show "0 \<le> analog_read env p \<and> analog_read env p \<le> 255"
      by (simp add: analog_read_eq signed_divide_int_def)
  qed
  have "255 * (rat_of_int (env p) - 170) / 682
      = rat_of_int ((env p - 170) * 255) / rat_of_int 682"
    by simp
  then have "to_long (255 * (rat_of_int (env p) - 170) / 682) = (env p - 170) * 255 sdiv 682"
    by (simp only: to_long_sdiv)
  then have trunc: "analog_read env p
       = to_long (255 * (rat_of_int (env p) - rat_of_int (to_long lo))
                  / (rat_of_int (to_long hi) - rat_of_int (to_long lo)))"
    by (simp add: analog_read_eq to_long_lo to_long_hi)
  have near: "\<bar>rat_of_int (analog_read env p)
       - 255 * (rat_of_int (env p) - rat_of_int (to_long lo))
         / (rat_of_int (to_long hi) - rat_of_int (to_long lo))\<bar> < 1"
    using analog_read_trunc [of env p] by (simp add: to_long_lo to_long_hi)
  show ?thesis
    using ends at_lo at_hi mono range trunc near by blast
qed

text \<open>The mapping at the two bounds and at two neighbouring samples in between.\<close>

theorem C4_mapping_witness:
  "(\<lambda>p. 170 :: int) A0 = to_long lo \<and> analog_read (\<lambda>p. 170) A0 = 0
   \<and> (\<lambda>p. 852 :: int) A0 = to_long hi \<and> analog_read (\<lambda>p. 852) A0 = 255
   \<and> (\<lambda>p. 500 :: int) A0 \<le> (\<lambda>p. 501 :: int) A1
   \<and> analog_read (\<lambda>p. 500) A0 \<le> analog_read (\<lambda>p. 501) A1
   \<and> to_long lo \<le> (\<lambda>p. 500 :: int) A0 \<and> (\<lambda>p. 500 :: int) A0 \<le> to_long hi
   \<and> 0 \<le> analog_read (\<lambda>p. 500) A0 \<and> analog_read (\<lambda>p. 500) A0 \<le> 255"
  using C4_mapping [of "\<lambda>p. 170" A0 "\<lambda>p. 170" A0]
    C4_mapping [of "\<lambda>p. 852" A0 "\<lambda>p. 852" A0]
    C4_mapping [of "\<lambda>p. 500" A0 "\<lambda>p. 501" A1]
  by (simp add: to_long_lo to_long_hi)

section \<open>What the polls write\<close>

lemma loop_adder_eq:
  "loop_adder env =
     [AnalogWrite DAC0 (constrain ((analog_read env A0 + analog_read env A1) sdiv 2) 0 255),
      AnalogWrite DAC1 (constrain ((analog_read env A0 + analog_read env A1) sdiv 2) 0 255)]"
  by (simp add: loop_adder_def Let_def)

text \<open>
  For samples of the 10-bit converter the sum of the two scaled values is far inside
  the machine range, so the averager's arithmetic on \<open>int\<close> is the board's.
\<close>

lemma loop_adder_in_long:
  assumes "0 \<le> env A0" and "env A0 \<le> 1023" and "0 \<le> env A1" and "env A1 \<le> 1023"
  shows "in_long (analog_read env A0 + analog_read env A1)"
proof -
  have "- 63 \<le> analog_read env A0" and "analog_read env A0 \<le> 318"
    using analog_read_in_long [of env A0] assms by simp_all
  moreover have "- 63 \<le> analog_read env A1" and "analog_read env A1 \<le> 318"
    using analog_read_in_long [of env A1] assms by simp_all
  ultimately show ?thesis
    by (simp add: in_long_def)
qed

lemma loop_limit_monitoring_cases:
  "loop_limit_monitoring env = [DigitalWrite (Pin 40) HIGH]
   \<or> loop_limit_monitoring env = [DigitalWrite (Pin 40) LOW]"
  by (simp add: loop_limit_monitoring_def Let_def)

text \<open>
  Claim C5: every value written to an analog output lies in \<open>[0, 255]\<close>: for the
  averager on every pair of raw samples, for the monitor because it never writes an
  analog output, and for the generator on every poll of every run from start-up, where
  the value is 0 or 255.
\<close>

theorem C5_output_range:
  "(AnalogWrite p v \<in> set (loop_adder env) \<longrightarrow> 0 \<le> v \<and> v \<le> 255)
   \<and> AnalogWrite p' v' \<notin> set (loop_limit_monitoring env')
   \<and> (AnalogWrite p'' v'' \<in> set (snd (run_pulsar (setup_pulsar t0) ts))
        \<longrightarrow> v'' = 0 \<or> v'' = 255)"
proof -
  have adder: "AnalogWrite p v \<in> set (loop_adder env) \<longrightarrow> 0 \<le> v \<and> v \<le> 255"
    using constrain_range by (auto simp: loop_adder_eq)
  have monitor: "AnalogWrite p' v' \<notin> set (loop_limit_monitoring env')"
    using loop_limit_monitoring_cases [of env'] by auto
  have "mult (setup_pulsar t0) = 0 \<or> mult (setup_pulsar t0) = 1"
    by (simp add: setup_pulsar_mult)
  then have pulsar: "AnalogWrite p'' v'' \<in> set (snd (run_pulsar (setup_pulsar t0) ts))
        \<longrightarrow> v'' = 0 \<or> v'' = 255"
    using run_pulsar_inv by blast
  show ?thesis
    using adder monitor pulsar by blast
qed

text \<open>
  Analog writes that do occur: the averager at full-scale and at zero samples, and the
  second transition of the generator.
\<close>

theorem C5_output_range_witness:
  "AnalogWrite DAC0 255 \<in> set (loop_adder (\<lambda>p. 1023))
   \<and> AnalogWrite DAC1 0 \<in> set (loop_adder (\<lambda>p. 0))
   \<and> AnalogWrite DAC1 255 \<in> set (snd (run_pulsar (setup_pulsar 0) [101, 202]))
   \<and> (0::int) \<le> 255 \<and> (255::int) \<le> 255"
proof -
  have a: "AnalogWrite DAC0 255 \<in> set (loop_adder (\<lambda>p. 1023))"
    by (simp add: loop_adder_eq analog_read_eq constrain_def signed_divide_int_def)
  have b: "AnalogWrite DAC1 0 \<in> set (loop_adder (\<lambda>p. 0))"
    by (simp add: loop_adder_eq analog_read_eq constrain_def signed_divide_int_def)
  have c: "AnalogWrite DAC1 255 \<in> set (snd (run_pulsar (setup_pulsar 0) [101, 202]))"
    by (simp add: setup_pulsar_def loop_pulsar_def FREQUENCY_def abs_macro_def)
  show ?thesis
    using C5_output_range [of DAC0 255 "\<lambda>p. 1023" DAC1 0 "\<lambda>p. 0" DAC1 255 0 "[101, 202]"] a b c
    by simp
qed

text \<open>
  Claim C7: the mapping is the same truncated linear function for every sample, inside
  or outside the bounds, with no clamp: samples up to 167 scale below 0 and samples
  from 855 on scale above 255 (raw 0 gives -63, raw 1023 gives 318). Only the averaged
  value is clamped when written: two full-scale samples write 255, two zero samples
  write 0, and samples 100 and 1023 write 146, the average of the unclamped -26 and 318.
\<close>

theorem C7_extrapolation:
  "analog_read env p = (env p - 170) * 255 sdiv 682
   \<and> \<bar>rat_of_int (analog_read env p) - 255 * (rat_of_int (env p) - 170) / 682\<bar> < 1
   \<and> (env p \<le> 167 \<longrightarrow> analog_read env p < 0)
   \<and> (855 \<le> env p \<longrightarrow> 255 < analog_read env p)
   \<and> analog_read (\<lambda>q. 0) p = - 63
   \<and> analog_read (\<lambda>q. 1023) p = 318
   \<and> loop_adder env =
       [AnalogWrite DAC0 (max 0 (min 255 ((analog_read env A0 + analog_read env A1) sdiv 2))),
        AnalogWrite DAC1 (max 0 (min 255 ((analog_read env A0 + analog_read env A1) sdiv 2)))]
   \<and> loop_adder (\<lambda>q. 1023) = [AnalogWrite DAC0 255, AnalogWrite DAC1 255]
   \<and> loop_adder (\<lambda>q. 0) = [AnalogWrite DAC0 0, AnalogWrite DAC1 0]
   \<and> loop_adder (\<lambda>q. if q = A0 then 100 else 1023)
       = [AnalogWrite DAC0 146, AnalogWrite DAC1 146]"
proof -
  have below: "env p \<le> 167 \<longrightarrow> analog_read env p < 0"
    by (simp add: analog_read_below)
  have above: "855 \<le> env p \<longrightarrow> 255 < analog_read env p"
    by (simp add: analog_read_above)
  have ex: "analog_read (\<lambda>q. 0) p = - 63" "analog_read (\<lambda>q. 1023) p = 318"
    by (simp_all add: analog_read_eq signed_divide_int_def)
  have writes: "loop_adder env =
       [AnalogWrite DAC0 (max 0 (min 255 ((analog_read env A0 + analog_read env A1) sdiv 2))),
        AnalogWrite DAC1 (max 0 (min 255 ((analog_read env A0 + analog_read env A1) sdiv 2)))]"
    by (simp add: loop_adder_eq constrain_clamp)
  have runs: "loop_adder (\<lambda>q. 1023) = [AnalogWrite DAC0 255, AnalogWrite DAC1 255]"
    "loop_adder (\<lambda>q. 0) = [AnalogWrite DAC0 0, AnalogWrite DAC1 0]"
    "loop_adder (\<lambda>q. if q = A0 then 100 else 1023)
       = [AnalogWrite DAC0 146, AnalogWrite DAC1 146]"
    by (simp_all add: loop_adder_eq analog_read_eq constrain_def signed_divide_int_def)
  show ?thesis
    using analog_read_eq [of env p] analog_read_trunc [of env p] below above ex writes runs
    by blast
qed

text \<open>Scaled values outside the output range: raw 100 and raw 1023.\<close>

theorem C7_extrapolation_witness:
  "(\<lambda>q. 100 :: int) A0 \<le> 167 \<and> analog_read (\<lambda>q. 100) A0 < 0
   \<and> 855 \<le> (\<lambda>q. 1023 :: int) A1 \<and> 255 < analog_read (\<lambda>q. 1023) A1"
  using C7_extrapolation [of "\<lambda>q. 100" A0] C7_extrapolation [of "\<lambda>q. 1023" A1]
  by simp

section \<open>Determinism, the toggle flag and the monitor's write\<close>

lemma loop_pulsar_quiet:
  assumes "filter is_write (snd (loop_pulsar t s)) \<noteq> [] \<or> drive_all out (snd (loop_pulsar t s)) \<noteq> out"
  shows "100 < elapsed t s"
proof (rule ccontr)
  assume "\<not> 100 < elapsed t s"
  then have "loop_pulsar t s = (s, [Delay 1])"
    by (simp add: loop_pulsar_idle)
  then show False
    using assms by (simp add: drive_all_def)
qed

text \<open>
  Claim C8: the averager's writes depend only on the samples read on \<open>A0\<close> and \<open>A1\<close>,
  the monitor's only on the sample read on \<open>A1\<close>, so polls with identical samples make
  identical writes, and a second poll with the same samples leaves the driven outputs
  as the first one left them. A poll of the generator that makes a write, or changes a
  driven output, is one where the elapsed time exceeds the period.
\<close>

theorem C8_determinism:
  "(env A0 = env' A0 \<longrightarrow> env A1 = env' A1 \<longrightarrow> loop_adder env = loop_adder env')
   \<and> (env A1 = env' A1 \<longrightarrow> loop_limit_monitoring env = loop_limit_monitoring env')
   \<and> drive_all (drive_all out (loop_adder env)) (loop_adder env) = drive_all out (loop_adder env)
   \<and> drive_all (drive_all out (loop_limit_monitoring env)) (loop_limit_monitoring env)
       = drive_all out (loop_limit_monitoring env)
   \<and> (filter is_write (snd (loop_pulsar t s)) \<noteq> [] \<longrightarrow> 100 < elapsed t s)
   \<and> (drive_all out (snd (loop_pulsar t s)) \<noteq> out \<longrightarrow> 100 < elapsed t s)"
proof -
  have adder: "env A0 = env' A0 \<longrightarrow> env A1 = env' A1 \<longrightarrow> loop_adder env = loop_adder env'"
    by (simp add: loop_adder_eq analog_read_eq)
  have monitor: "env A1 = env' A1 \<longrightarrow> loop_limit_monitoring env = loop_limit_monitoring env'"
    by (simp add: loop_limit_monitoring_def analog_read_eq)
  have again_adder:
    "drive_all (drive_all out (loop_adder env)) (loop_adder env) = drive_all out (loop_adder env)"
    by (simp add: loop_adder_eq drive_all_def fun_eq_iff)
  have again_monitor:
    "drive_all (drive_all out (loop_limit_monitoring env)) (loop_limit_monitoring env)
       = drive_all out (loop_limit_monitoring env)"
    using loop_limit_monitoring_cases [of env] by (auto simp: drive_all_def)
  have pulsar: "filter is_write (snd (loop_pulsar t s)) \<noteq> [] \<longrightarrow> 100 < elapsed t s"
    "drive_all out (snd (loop_pulsar t s)) \<noteq> out \<longrightarrow> 100 < elapsed t s"
    using loop_pulsar_quiet [of t s out] by blast+
  show ?thesis
    using adder monitor again_adder again_monitor pulsar by blast
qed

text \<open>
  Two sample functions that differ only on pins that are not read, and a generator poll
  that changes the outputs.
\<close>

theorem C8_determinism_witness:
  "(\<lambda>p. if p = A0 then 705 else if p = A1 then 708 else 0 :: int) A0
      = (\<lambda>p. if p = A0 then 705 else if p = A1 then 708 else 9) A0
   \<and> (\<lambda>p. if p = A0 then 705 else if p = A1 then 708 else 0 :: int) A1
      = (\<lambda>p. if p = A0 then 705 else if p = A1 then 708 else 9) A1
   \<and> loop_adder (\<lambda>p. if p = A0 then 705 else if p = A1 then 708 else 0)
      = loop_adder (\<lambda>p. if p = A0 then 705 else if p = A1 then 708 else 9)
   \<and> loop_limit_monitoring (\<lambda>p. if p = A0 then 705 else if p = A1 then 708 else 0)
      = loop_limit_monitoring (\<lambda>p. if p = A0 then 705 else if p = A1 then 708 else 9)
   \<and> filter is_write (snd (loop_pulsar 101 \<lparr>mult = 0, last = 0\<rparr>)) \<noteq> []
   \<and> drive_all (\<lambda>p. None) (snd (loop_pulsar 101 \<lparr>mult = 0, last = 0\<rparr>)) \<noteq> (\<lambda>p. None)
   \<and> 100 < elapsed 101 \<lparr>mult = 0, last = 0\<rparr>"
proof -
  have w: "filter is_write (snd (loop_pulsar 101 \<lparr>mult = 0, last = 0\<rparr>)) \<noteq> []"
    by (simp add: loop_pulsar_def FREQUENCY_def)
  have "drive_all (\<lambda>p. None) (snd (loop_pulsar 101 \<lparr>mult = 0, last = 0\<rparr>)) DAC1 = Some (Analog 0)"
    by (simp add: loop_pulsar_def FREQUENCY_def drive_all_def)
  then have d: "drive_all (\<lambda>p. None) (snd (loop_pulsar 101 \<lparr>mult = 0, last = 0\<rparr>)) \<noteq> (\<lambda>p. None)"
    by (metis option.distinct(1))
  show ?thesis
    using C8_determinism [of "\<lambda>p. if p = A0 then 705 else if p = A1 then 708 else 0"
        "\<lambda>p. if p = A0 then 705 else if p = A1 then 708 else 9"
        "\<lambda>p. None" 101 "\<lparr>mult = 0, last = 0\<rparr>"] w d
    by simp
qed

text \<open>
  Claim C9: after any number of polls from start-up the toggle flag is 0 or 1, and every
  poll preserves that; the update maps 0 to 1 and 1 to 0; every analog value the
  generator writes is 0 or 255; and two consecutive transitions restore the flag.
\<close>

theorem C9_toggle:
  "(mult (fst (run_pulsar (setup_pulsar t0) ts)) = 0
      \<or> mult (fst (run_pulsar (setup_pulsar t0) ts)) = 1)
   \<and> (mult s = 0 \<or> mult s = 1 \<longrightarrow>
        mult (fst (loop_pulsar t s)) = 0 \<or> mult (fst (loop_pulsar t s)) = 1)
   \<and> abs_macro (1 - 0) = 1 \<and> abs_macro (1 - 1) = 0
   \<and> (AnalogWrite p v \<in> set (snd (run_pulsar (setup_pulsar t0) ts)) \<longrightarrow> v = 0 \<or> v = 255)
   \<and> (mult s = 0 \<or> mult s = 1 \<longrightarrow> 100 < elapsed t1 s \<longrightarrow>
        100 < elapsed t2 (fst (loop_pulsar t1 s)) \<longrightarrow>
        mult (fst (loop_pulsar t1 s)) = 1 - mult s
        \<and> mult (fst (loop_pulsar t2 (fst (loop_pulsar t1 s)))) = mult s)"
proof -
  have init: "mult (setup_pulsar t0) = 0 \<or> mult (setup_pulsar t0) = 1"
    by (simp add: setup_pulsar_mult)
  have reach: "mult (fst (run_pulsar (setup_pulsar t0) ts)) = 0
      \<or> mult (fst (run_pulsar (setup_pulsar t0) ts)) = 1"
    using run_pulsar_inv [OF init, of ts] by blast
  have written: "AnalogWrite p v \<in> set (snd (run_pulsar (setup_pulsar t0) ts)) \<longrightarrow> v = 0 \<or> v = 255"
    using run_pulsar_inv [OF init, of ts] by blast
  have step: "mult s = 0 \<or> mult s = 1 \<longrightarrow>
        mult (fst (loop_pulsar t s)) = 0 \<or> mult (fst (loop_pulsar t s)) = 1"
    using loop_pulsar_mult [of s t] by blast
  have flip: "abs_macro (1 - 0) = 1" "abs_macro (1 - 1) = 0"
    by (simp_all add: abs_macro_def)
  have twice: "mult s = 0 \<or> mult s = 1 \<longrightarrow> 100 < elapsed t1 s \<longrightarrow>
        100 < elapsed t2 (fst (loop_pulsar t1 s)) \<longrightarrow>
        mult (fst (loop_pulsar t1 s)) = 1 - mult s
        \<and> mult (fst (loop_pulsar t2 (fst (loop_pulsar t1 s)))) = mult s"
  proof (intro impI)
    assume inv: "mult s = 0 \<or> mult s = 1" and e1: "100 < elapsed t1 s"
      and e2: "100 < elapsed t2 (fst (loop_pulsar t1 s))"
    have m1: "mult (fst (loop_pulsar t1 s)) = 1 - mult s"
      using inv by (auto simp: loop_pulsar_fire [OF e1] abs_macro_def)
    have "mult (fst (loop_pulsar t2 (fst (loop_pulsar t1 s))))
        = abs_macro (1 - mult (fst (loop_pulsar t1 s)))"
      by (simp add: loop_pulsar_fire [OF e2])
    also have "\<dots> = mult s"
      using inv m1 by (auto simp: abs_macro_def)
    finally show "mult (fst (loop_pulsar t1 s)) = 1 - mult s
        \<and> mult (fst (loop_pulsar t2 (fst (loop_pulsar t1 s)))) = mult s"
      using m1 by simp
  qed
  show ?thesis
    using reach step flip written twice by blast
qed

text \<open>Two consecutive transitions from start-up at clock values 101 and 202.\<close>

theorem C9_toggle_witness:
  "(mult \<lparr>mult = 0, last = 0\<rparr> = 0 \<or> mult \<lparr>mult = 0, last = 0\<rparr> = 1)
   \<and> 100 < elapsed 101 \<lparr>mult = 0, last = 0\<rparr>
   \<and> 100 < elapsed 202 (fst (loop_pulsar 101 \<lparr>mult = 0, last = 0\<rparr>))
   \<and> mult (fst (loop_pulsar 101 \<lparr>mult = 0, last = 0\<rparr>)) = 1
   \<and> mult (fst (loop_pulsar 202 (fst (loop_pulsar 101 \<lparr>mult = 0, last = 0\<rparr>)))) = 0
   \<and> AnalogWrite DAC1 255 \<in> set (snd (run_pulsar (setup_pulsar 0) [101, 202]))
   \<and> mult (fst (run_pulsar (setup_pulsar 0) [101, 202])) = 0"
proof -
  have s1: "loop_pulsar 101 \<lparr>mult = 0, last = 0\<rparr>
      = (\<lparr>mult = 1, last = 101\<rparr>, [AnalogWrite DAC1 0, DigitalWrite (Pin 45) LOW, Delay 1])"
    by (simp add: loop_pulsar_def FREQUENCY_def DIGITAL_OUT_def GRAIN_def abs_macro_def)
  have s2: "loop_pulsar 202 \<lparr>mult = 1, last = 101\<rparr>
      = (\<lparr>mult = 0, last = 202\<rparr>, [AnalogWrite DAC1 255, DigitalWrite (Pin 45) HIGH, Delay 1])"
    by (simp add: loop_pulsar_def FREQUENCY_def DIGITAL_OUT_def GRAIN_def abs_macro_def)
  have r: "run_pulsar (setup_pulsar 0) [101, 202]
      = (\<lparr>mult = 0, last = 202\<rparr>,
         [AnalogWrite DAC1 0, DigitalWrite (Pin 45) LOW, Delay 1,
          AnalogWrite DAC1 255, DigitalWrite (Pin 45) HIGH, Delay 1])"
    by (simp add: setup_pulsar_def s1 s2)
  show ?thesis
    using C9_toggle [of 0 "[101, 202]" "\<lparr>mult = 0, last = 0\<rparr>" 101 DAC1 255 101 202] s1 s2 r
    by (simp add: elapsed_def)
qed

text \<open>
  Claim C10: every poll of the monitor makes exactly one hardware call, a digital write
  to pin 40; no path skips it, so two polls with the same sample write the same level
  twice.
\<close>

theorem C10_monitor_writes:
  "length (loop_limit_monitoring env) = 1
   \<and> filter is_write (loop_limit_monitoring env) = loop_limit_monitoring env
   \<and> (\<exists>l. loop_limit_monitoring env = [DigitalWrite (Pin 40) l])
   \<and> (\<exists>l. loop_limit_monitoring env @ loop_limit_monitoring env
            = [DigitalWrite (Pin 40) l, DigitalWrite (Pin 40) l])"
  using loop_limit_monitoring_cases [of env] by auto

end
